theory Spec2Isabelle
  imports Main "HOL-Library.Word"
begin

section \<open>The IOKit adaptation layer of the LVM2 reader (kext/lvm2\_osal\_iokit.cpp)\<close>

text \<open>
  The file is the kernel-side operating system abstraction of an LVM2 volume reader: an
  allocator adapter (\<open>lvm2_malloc\<close>, \<open>lvm2_free\<close>), an I/O buffer wrapping an
  \<open>IOBufferMemoryDescriptor\<close>, and a device handle with the read routine
  \<open>lvm2_device_read\<close>.

  The embedding is by explicit state passing. The kernel state holds the blocks handed out by
  \<open>IOMalloc\<close>, the live memory descriptors with their bytes, the set of storage objects that
  are open, and the sequence of calls made into IOKit. What IOKit decides on its own (whether an
  allocation or an open succeeds, what the media holds, whether a transfer fails) is a record of
  oracles. A pointer parameter through which the C code writes (\<open>void **\<close>) is passed in by
  value and its new value is returned. Undefined behaviour of the C code (dereferencing a
  pointer to no live object, dividing by a zero block size, reading past the end of a source
  buffer) is the result \<open>None\<close>.
\<close>

subsection \<open>Machine types and constants\<close>

text \<open>The kernel extension is built for the LP64 kernel: \<open>size_t\<close>, \<open>IOByteCount\<close> and
  \<open>vm_size_t\<close> are 64 bits wide, \<open>u32\<close> is 32 bits wide.\<close>

type_synonym u8 = "8 word"
type_synonym u32 = "32 word"
type_synonym u64 = "64 word"
type_synonym size_t = "64 word"

text \<open>An address of an object; a nullable pointer variable is an \<open>addr option\<close>, with
  \<open>None\<close> for \<open>NULL\<close>.\<close>

type_synonym addr = nat
type_synonym ptr = "addr option"

abbreviation NULL :: ptr where
  "NULL \<equiv> None"

text \<open>\<open>U32_MAX\<close> comes from lvm2\_types.h and \<open>SSIZE_MAX\<close> from machine/limits.h, neither
  of which is among the sources: they are the largest 32-bit unsigned value and, on LP64,
  \<open>LONG_MAX\<close>.\<close>

definition U32_MAX :: u64 where
  "U32_MAX = 0xFFFFFFFF"

definition SSIZE_MAX :: size_t where
  "SSIZE_MAX = 0x7FFFFFFFFFFFFFFF"

text \<open>The error numbers of sys/errno.h.\<close>

definition EIO :: int where "EIO = 5"
definition ENOMEM :: int where "ENOMEM = 12"
definition EACCES :: int where "EACCES = 13"
definition EINVAL :: int where "EINVAL = 22"
definition ERANGE :: int where "ERANGE = 34"

subsection \<open>Data\<close>

record lvm2_io_buffer =
  buffer :: addr

record lvm2_device =
  storage :: addr
  media :: addr
  block_size :: u32

text \<open>\<open>sizeof\<close> of the two structures on LP64.\<close>

definition sizeof_lvm2_io_buffer :: nat where
  "sizeof_lvm2_io_buffer = 8"

definition sizeof_lvm2_device :: nat where
  "sizeof_lvm2_device = 24"

text \<open>What a block obtained from \<open>IOMalloc\<close> holds: nothing yet, or one of the two
  structures.\<close>

datatype obj =
    Raw nat
  | IOBufferObj lvm2_io_buffer
  | DeviceObj lvm2_device

text \<open>The calls into IOKit, in the order they are made.\<close>

datatype event =
    EvIOMalloc nat ptr
  | EvIOFree addr nat
  | EvWithCapacity nat ptr
  | EvRelease addr
  | EvOpen addr bool
  | EvClose addr
  | EvRead addr addr u64 nat bool
  | EvWriteBytes addr nat nat nat
  | EvLogError

record kernel =
  heap :: "addr \<rightharpoonup> obj"
  next_block :: addr
  descs :: "addr \<rightharpoonup> u8 list"
  next_desc :: addr
  opened :: "addr set"
  trace :: "event list"

text \<open>The behaviour of IOKit that the file does not determine.\<close>

record iokit =
  IOMalloc_fails :: "nat \<Rightarrow> bool"
  withCapacity_fails :: "nat \<Rightarrow> bool"
  getPreferredBlockSize :: "addr \<Rightarrow> u64"
  open_fails :: "addr \<Rightarrow> bool"
  media_bytes :: "addr \<Rightarrow> u8 list"
  read_fails :: "addr \<Rightarrow> u64 \<Rightarrow> nat \<Rightarrow> bool"

subsection \<open>The IOKit calls\<close>

definition emit :: "event \<Rightarrow> kernel \<Rightarrow> kernel" where
  "emit e s = s\<lparr>trace := trace s @ [e]\<rparr>"

text \<open>The \<open>LogError\<close> macro of lvm2\_osal.h: a call to the kernel log, whose text is not
  modelled.\<close>

definition LogError :: "kernel \<Rightarrow> kernel" where
  "LogError s = emit EvLogError s"

definition IOMalloc :: "iokit \<Rightarrow> kernel \<Rightarrow> nat \<Rightarrow> ptr \<times> kernel" where
  "IOMalloc env s sz =
     (if IOMalloc_fails env sz then (NULL, emit (EvIOMalloc sz NULL) s)
      else (Some (next_block s),
            emit (EvIOMalloc sz (Some (next_block s)))
              (s\<lparr>heap := (heap s)(next_block s \<mapsto> Raw sz),
                 next_block := Suc (next_block s)\<rparr>)))"

text \<open>\<open>IOFree\<close> of \<open>NULL\<close> does nothing; of an address that is no live block it is
  undefined.\<close>

definition IOFree :: "kernel \<Rightarrow> ptr \<Rightarrow> nat \<Rightarrow> kernel option" where
  "IOFree s p sz =
     (case p of
        None \<Rightarrow> Some s
      | Some a \<Rightarrow>
          (case heap s a of
             None \<Rightarrow> None
           | Some _ \<Rightarrow> Some (emit (EvIOFree a sz) (s\<lparr>heap := (heap s)(a := None)\<rparr>))))"

text \<open>\<open>IOBufferMemoryDescriptor::withCapacity\<close>: a new descriptor whose length is its
  capacity, or \<open>NULL\<close>. The bytes of a new descriptor, which IOKit leaves open, are zero
  here.\<close>

definition withCapacity :: "iokit \<Rightarrow> kernel \<Rightarrow> nat \<Rightarrow> ptr \<times> kernel" where
  "withCapacity env s capacity =
     (if withCapacity_fails env capacity then (NULL, emit (EvWithCapacity capacity NULL) s)
      else (Some (next_desc s),
            emit (EvWithCapacity capacity (Some (next_desc s)))
              (s\<lparr>descs := (descs s)(next_desc s \<mapsto> replicate capacity 0),
                 next_desc := Suc (next_desc s)\<rparr>)))"

text \<open>\<open>release\<close> of the only reference to a descriptor frees it.\<close>

definition release :: "kernel \<Rightarrow> addr \<Rightarrow> kernel" where
  "release s a = emit (EvRelease a) (s\<lparr>descs := (descs s)(a := None)\<rparr>)"

definition storage_open :: "iokit \<Rightarrow> kernel \<Rightarrow> addr \<Rightarrow> bool \<times> kernel" where
  "storage_open env s st =
     (if open_fails env st then (False, emit (EvOpen st False) s)
      else (True, emit (EvOpen st True) (s\<lparr>opened := insert st (opened s)\<rparr>)))"

definition storage_close :: "kernel \<Rightarrow> addr \<Rightarrow> kernel" where
  "storage_close s st = emit (EvClose st) (s\<lparr>opened := opened s - {st}\<rparr>)"

text \<open>\<open>IOMedia::read (client, byteStart, buffer)\<close>: a synchronous transfer of as many bytes
  as the descriptor is long, from the byte offset \<open>byteStart\<close> of the media. It fails when
  the range is not within the media, or when the driver refuses it.\<close>

definition transfer_fails :: "iokit \<Rightarrow> addr \<Rightarrow> u64 \<Rightarrow> nat \<Rightarrow> bool" where
  "transfer_fails env m pos n =
     (read_fails env m pos n \<or> length (media_bytes env m) < unat pos + n)"

definition media_read :: "iokit \<Rightarrow> kernel \<Rightarrow> lvm2_device \<Rightarrow> u64 \<Rightarrow> addr \<Rightarrow> (bool \<times> kernel) option" where
  "media_read env s d pos buf =
     (case descs s buf of
        None \<Rightarrow> None
      | Some old \<Rightarrow>
          (if transfer_fails env (media d) pos (length old)
           then Some (False, emit (EvRead (media d) (storage d) pos (length old) False) s)
           else Some (True,
                  emit (EvRead (media d) (storage d) pos (length old) True)
                    (s\<lparr>descs := (descs s)(buf \<mapsto>
                         take (length old) (drop (unat pos) (media_bytes env (media d))))\<rparr>))))"

text \<open>\<open>IOMemoryDescriptor::writeBytes (offset, bytes, length)\<close>: copies from the memory at
  \<open>bytes\<close> into the descriptor, as much of \<open>length\<close> as fits behind \<open>offset\<close>, and
  returns the number of bytes copied (zero when \<open>offset\<close> is not inside the descriptor).
  The source memory is given as the list of bytes that starts at the pointer; copying more
  than it holds reads outside of it.\<close>

definition writeBytes :: "kernel \<Rightarrow> addr \<Rightarrow> nat \<Rightarrow> u8 list \<Rightarrow> nat \<Rightarrow> (nat \<times> kernel) option" where
  "writeBytes s dst offset bytes len =
     (case descs s dst of
        None \<Rightarrow> None
      | Some old \<Rightarrow>
          (if length old \<le> offset then Some (0, emit (EvWriteBytes dst offset len 0) s)
           else
             (let n = min len (length old - offset) in
              if length bytes < n then None
              else Some (n,
                     emit (EvWriteBytes dst offset len n)
                       (s\<lparr>descs := (descs s)(dst \<mapsto>
                            take offset old @ take n bytes @ drop (offset + n) old)\<rparr>)))))"

subsection \<open>The allocator adapter\<close>

text \<open>\<open>lvm2_malloc (size, out_ptr)\<close>: the result is the error number and the new value of
  \<open>*out_ptr\<close>, which is written only on success.\<close>

definition lvm2_malloc :: "iokit \<Rightarrow> kernel \<Rightarrow> nat \<Rightarrow> ptr \<Rightarrow> int \<times> ptr \<times> kernel" where
  "lvm2_malloc env s sz out_ptr =
     (case IOMalloc env s sz of
        (Some a, s') \<Rightarrow> (0, Some a, s')
      | (None, s') \<Rightarrow> (ENOMEM, out_ptr, s'))"

text \<open>\<open>lvm2_free (ptr, size)\<close>: the result is the new value of \<open>*ptr\<close>.\<close>

definition lvm2_free :: "kernel \<Rightarrow> ptr \<Rightarrow> nat \<Rightarrow> (ptr \<times> kernel) option" where
  "lvm2_free s p sz =
     (case IOFree s p sz of
        None \<Rightarrow> None
      | Some s' \<Rightarrow> Some (NULL, s'))"

subsection \<open>The I/O buffer\<close>

definition lvm2_io_buffer_create :: "iokit \<Rightarrow> kernel \<Rightarrow> nat \<Rightarrow> ptr \<Rightarrow> (int \<times> ptr \<times> kernel) option" where
  "lvm2_io_buffer_create env s sz out_buf =
     (case lvm2_malloc env s sizeof_lvm2_io_buffer NULL of
        (err, buf, s1) \<Rightarrow>
          (if err = 0 then
             (case withCapacity env s1 sz of
                (None, s2) \<Rightarrow>
                  (case lvm2_free (LogError s2) buf sizeof_lvm2_io_buffer of
                     None \<Rightarrow> None
                   | Some (_, s3) \<Rightarrow> Some (ENOMEM, out_buf, s3))
              | (Some b, s2) \<Rightarrow>
                  (case buf of
                     None \<Rightarrow> None
                   | Some a \<Rightarrow>
                       Some (0, Some a,
                         s2\<lparr>heap := (heap s2)(a \<mapsto> IOBufferObj \<lparr>buffer = b\<rparr>)\<rparr>)))
           else Some (err, out_buf, s1)))"

definition lvm2_io_buffer_get_bytes :: "kernel \<Rightarrow> addr \<Rightarrow> u8 list option" where
  "lvm2_io_buffer_get_bytes s buf =
     (case heap s buf of
        Some (IOBufferObj b) \<Rightarrow> descs s (buffer b)
      | _ \<Rightarrow> None)"

definition lvm2_io_buffer_destroy :: "kernel \<Rightarrow> ptr \<Rightarrow> (ptr \<times> kernel) option" where
  "lvm2_io_buffer_destroy s buf =
     (case buf of
        None \<Rightarrow> None
      | Some a \<Rightarrow>
          (case heap s a of
             Some (IOBufferObj b) \<Rightarrow>
               (case descs s (buffer b) of
                  None \<Rightarrow> None
                | Some _ \<Rightarrow> lvm2_free (release s (buffer b)) buf sizeof_lvm2_io_buffer)
           | _ \<Rightarrow> None))"

subsection \<open>The device handle\<close>

text \<open>\<open>lvm2_unix_device_create (storage, media, out_dev)\<close>: the result is the error number
  and the new value of \<open>*out_dev\<close>. Clearing the new block and assigning its three fields
  is one step here. The local \<open>err\<close> is tested twice in the source with nothing assigned to
  it in between, which is one test with two branches.\<close>

definition lvm2_unix_device_create ::
  "iokit \<Rightarrow> kernel \<Rightarrow> addr \<Rightarrow> addr \<Rightarrow> ptr \<Rightarrow> (int \<times> ptr \<times> kernel) option" where
  "lvm2_unix_device_create env s storage_p media_p out_dev =
     (let mediaBlockSize = getPreferredBlockSize env media_p in
      if U32_MAX < mediaBlockSize then Some (EINVAL, out_dev, LogError s)
      else
        (case storage_open env s storage_p of
           (mediaIsOpen, s1) \<Rightarrow>
             (if mediaIsOpen = False then Some (EACCES, out_dev, LogError s1)
              else
                (case lvm2_malloc env s1 sizeof_lvm2_device NULL of
                   (err, dev, s2) \<Rightarrow>
                     (if err = 0 then
                        (case dev of
                           None \<Rightarrow> None
                         | Some a \<Rightarrow>
                             Some (0, Some a,
                               s2\<lparr>heap := (heap s2)(a \<mapsto> DeviceObj
                                     \<lparr>storage = storage_p, media = media_p,
                                      block_size = ucast mediaBlockSize\<rparr>)\<rparr>))
                      else Some (err, out_dev, storage_close s2 storage_p))))))"

definition lvm2_unix_device_destroy :: "kernel \<Rightarrow> ptr \<Rightarrow> (ptr \<times> kernel) option" where
  "lvm2_unix_device_destroy s dev =
     (case dev of
        None \<Rightarrow> None
      | Some a \<Rightarrow>
          (case heap s a of
             Some (DeviceObj d) \<Rightarrow>
               lvm2_free (storage_close s (storage d)) dev sizeof_lvm2_device
           | _ \<Rightarrow> None))"

subsection \<open>Reading\<close>

text \<open>The quantities \<open>lvm2_device_read\<close> derives from a request. The sum
  \<open>lead_in + in_count\<close> is computed in \<open>size_t\<close>, the remainder is cast back to \<open>u32\<close>.\<close>

definition lead_in_of :: "u32 \<Rightarrow> u64 \<Rightarrow> u32" where
  "lead_in_of bs in_pos = ucast (in_pos mod ucast bs)"

definition lead_out_of :: "u32 \<Rightarrow> u32 \<Rightarrow> size_t \<Rightarrow> u32" where
  "lead_out_of bs lead_in in_count = bs - ucast ((ucast lead_in + in_count) mod ucast bs)"

definition aligned_pos_of :: "u64 \<Rightarrow> u32 \<Rightarrow> u64" where
  "aligned_pos_of in_pos lead_in = in_pos - ucast lead_in"

text \<open>The source adds the local variable \<open>count\<close> here, not the parameter \<open>in_count\<close>.\<close>

definition aligned_count_of :: "u32 \<Rightarrow> size_t \<Rightarrow> u32 \<Rightarrow> size_t" where
  "aligned_count_of lead_in count lead_out = ucast lead_in + count + ucast lead_out"

text \<open>The part of \<open>lvm2_device_read\<close> from the call of \<open>read\<close> on: \<open>buf\<close> is the
  descriptor to read into, the caller's or the temporary one.\<close>

definition read_into ::
  "iokit \<Rightarrow> kernel \<Rightarrow> lvm2_device \<Rightarrow> u64 \<Rightarrow> addr \<Rightarrow> size_t \<Rightarrow> addr \<Rightarrow> (int \<times> kernel) option" where
  "read_into env s d pos buf in_count in_buf =
     (case media_read env s d pos buf of
        None \<Rightarrow> None
      | Some (ok, s1) \<Rightarrow>
          (case heap s1 in_buf of
             Some (IOBufferObj b) \<Rightarrow>
               (if ok = False then
                  Some (EIO, if buf \<noteq> buffer b then release s1 buf else s1)
                else if buf \<noteq> buffer b then
                  (case descs s1 buf of
                     None \<Rightarrow> None
                   | Some bytes \<Rightarrow>
                       (case writeBytes s1 (buffer b) 0 bytes (unat in_count) of
                          None \<Rightarrow> None
                        | Some (res, s2) \<Rightarrow>
                            Some (0,
                              release (if res \<noteq> unat in_count then LogError s2 else s2) buf)))
                else Some (0, s1))
           | _ \<Rightarrow> None))"

text \<open>The branch for a request that is not aligned: a temporary descriptor of
  \<open>aligned_count\<close> bytes is read at \<open>aligned_pos\<close>.\<close>

definition read_unaligned ::
  "iokit \<Rightarrow> kernel \<Rightarrow> lvm2_device \<Rightarrow> u64 \<Rightarrow> size_t \<Rightarrow> addr \<Rightarrow> u32 \<Rightarrow> u32 \<Rightarrow> size_t \<Rightarrow>
   (int \<times> kernel) option" where
  "read_unaligned env s d in_pos in_count in_buf lead_in lead_out count =
     (let aligned_pos = aligned_pos_of in_pos lead_in;
          aligned_count = aligned_count_of lead_in count lead_out
      in
        (case withCapacity env (LogError s) (unat aligned_count) of
           (None, s1) \<Rightarrow> Some (ENOMEM, LogError s1)
         | (Some aligned_buf, s1) \<Rightarrow>
             read_into env s1 d aligned_pos aligned_buf in_count in_buf))"

text \<open>\<open>lvm2_device_read (dev, in_pos, in_count, in_buf)\<close>. The local variable \<open>count\<close> is
  read by the branch for unaligned requests before anything is assigned to it; the value it
  holds then is indeterminate, and is the last argument here. The three tests of the
  condition are made in order, the caller's buffer being looked at only by the third.\<close>

definition lvm2_device_read ::
  "iokit \<Rightarrow> kernel \<Rightarrow> addr \<Rightarrow> u64 \<Rightarrow> size_t \<Rightarrow> addr \<Rightarrow> size_t \<Rightarrow> (int \<times> kernel) option" where
  "lvm2_device_read env s dev in_pos in_count in_buf count =
     (if SSIZE_MAX < in_count then Some (ERANGE, s)
      else
        (case heap s dev of
           Some (DeviceObj d) \<Rightarrow>
             (if block_size d = 0 then None
              else
                (let lead_in = lead_in_of (block_size d) in_pos;
                     lead_out = lead_out_of (block_size d) lead_in in_count
                 in
                   if lead_in \<noteq> 0 then
                     read_unaligned env s d in_pos in_count in_buf lead_in lead_out count
                   else if lead_out \<noteq> 0 then
                     read_unaligned env s d in_pos in_count in_buf lead_in lead_out count
                   else
                     (case heap s in_buf of
                        Some (IOBufferObj b) \<Rightarrow>
                          (case descs s (buffer b) of
                             None \<Rightarrow> None
                           | Some bytes \<Rightarrow>
                               (if unat in_count \<noteq> length bytes then
                                  read_unaligned env s d in_pos in_count in_buf
                                    lead_in lead_out count
                                else read_into env s d in_pos (buffer b) in_count in_buf))
                      | _ \<Rightarrow> None)))
         | _ \<Rightarrow> None))"

subsection \<open>Concrete kernels and IOKit behaviours\<close>

text \<open>An IOKit in which nothing fails, with one media content and one preferred block
  size.\<close>

definition quiet_iokit :: "u8 list \<Rightarrow> u64 \<Rightarrow> iokit" where
  "quiet_iokit bytes bsz =
     \<lparr>IOMalloc_fails = (\<lambda>_. False), withCapacity_fails = (\<lambda>_. False),
      getPreferredBlockSize = (\<lambda>_. bsz), open_fails = (\<lambda>_. False),
      media_bytes = (\<lambda>_. bytes), read_fails = (\<lambda>_ _ _. False)\<rparr>"

text \<open>The kernel before anything was allocated or opened.\<close>

definition boot :: kernel where
  "boot = \<lparr>heap = Map.empty, next_block = 0, descs = Map.empty, next_desc = 0,
           opened = {}, trace = []\<rparr>"

text \<open>A kernel with a device handle at block 0, for the storage object 7 and the media 8
  with block size \<open>bs\<close>, and an I/O buffer of capacity \<open>cap\<close> at block 1.\<close>

definition attached :: "u32 \<Rightarrow> nat \<Rightarrow> kernel" where
  "attached bs cap =
     \<lparr>heap = [0 \<mapsto> DeviceObj \<lparr>storage = 7, media = 8, block_size = bs\<rparr>,
              1 \<mapsto> IOBufferObj \<lparr>buffer = 0\<rparr>],
      next_block = 2, descs = [0 \<mapsto> replicate cap 0], next_desc = 1,
      opened = {7}, trace = []\<rparr>"

text \<open>A media of eight bytes, each different from the others.\<close>

definition disk8 :: "u8 list" where
  "disk8 = [10, 11, 12, 13, 14, 15, 16, 17]"

text \<open>A media of 1024 bytes, all zero but for the bytes at the offsets 512 and 513.\<close>

definition disk1024 :: "u8 list" where
  "disk1024 = replicate 512 0 @ [7, 9] @ replicate 510 0"

section \<open>Properties\<close>

lemmas call_defs = emit_def LogError_def IOMalloc_def IOFree_def withCapacity_def release_def
  storage_open_def storage_close_def transfer_fails_def media_read_def writeBytes_def

lemmas read_defs = lvm2_device_read_def read_unaligned_def read_into_def
  lead_in_of_def lead_out_of_def aligned_pos_of_def aligned_count_of_def SSIZE_MAX_def

lemmas create_defs = lvm2_unix_device_create_def lvm2_malloc_def U32_MAX_def
  sizeof_lvm2_device_def

lemmas destroy_defs = lvm2_free_def lvm2_io_buffer_destroy_def lvm2_unix_device_destroy_def
  sizeof_lvm2_io_buffer_def sizeof_lvm2_device_def

lemmas errno_defs = EIO_def ENOMEM_def EACCES_def EINVAL_def ERANGE_def

lemmas fixture_defs = quiet_iokit_def boot_def attached_def disk8_def disk1024_def

text \<open>The kernel \<open>attached 4 2\<close> is what creating a device handle and then an I/O buffer
  of two bytes makes of \<open>boot\<close>, but for the calls recorded.\<close>

lemma attached_reachable:
  "lvm2_unix_device_create (quiet_iokit disk8 4) boot 7 8 NULL
     = Some (0, Some 0,
         boot\<lparr>heap := [0 \<mapsto> DeviceObj \<lparr>storage = 7, media = 8, block_size = 4\<rparr>],
              next_block := 1, opened := {7},
              trace := [EvOpen 7 True, EvIOMalloc 24 (Some 0)]\<rparr>)
   \<and> lvm2_io_buffer_create (quiet_iokit disk8 4)
        (boot\<lparr>heap := [0 \<mapsto> DeviceObj \<lparr>storage = 7, media = 8, block_size = 4\<rparr>],
              next_block := 1, opened := {7},
              trace := [EvOpen 7 True, EvIOMalloc 24 (Some 0)]\<rparr>) 2 NULL
     = Some (0, Some 1,
         (attached 4 2)\<lparr>trace := [EvOpen 7 True, EvIOMalloc 24 (Some 0),
            EvIOMalloc 8 (Some 1), EvWithCapacity 2 (Some 0)]\<rparr>)"
  by (simp add: create_defs lvm2_io_buffer_create_def sizeof_lvm2_io_buffer_def
      call_defs fixture_defs Let_def)

subsection \<open>Casts between the two widths\<close>

lemma unat_u32_bound: "unat (x :: u32) < 2 ^ 32"
  using unsigned_less [of x] by simp

lemma unat_ucast_up: "unat (ucast (x :: u32) :: u64) = unat x"
proof -
  have "unat x < 2 ^ 64" using unat_u32_bound [of x] by simp
  then show ?thesis by (simp add: unsigned_ucast_eq take_bit_nat_eq_self)
qed

lemma unat_ucast_down: "unat (ucast (x :: u64) :: u32) = unat x mod 2 ^ 32"
  by (simp add: unsigned_ucast_eq take_bit_eq_mod)

subsection \<open>The lead-in and the lead-out\<close>

lemma unat_lead_in_of:
  assumes "bs \<noteq> 0"
  shows "unat (lead_in_of bs pos) = unat pos mod unat bs"
proof -
  have pos: "0 < unat bs" using assms by (simp add: unat_gt_0)
  have "unat pos mod unat bs < unat bs" using pos by simp
  also have "\<dots> < 2 ^ 32" by (rule unat_u32_bound)
  finally show ?thesis
    by (simp add: lead_in_of_def unat_ucast_down unat_mod unat_ucast_up)
qed

lemma lead_in_of_less:
  assumes "bs \<noteq> 0"
  shows "lead_in_of bs pos < bs"
proof -
  have "0 < unat bs" using assms by (simp add: unat_gt_0)
  then show ?thesis by (simp add: word_less_nat_alt unat_lead_in_of [OF assms])
qed

lemma unat_lead_out_of:
  assumes "bs \<noteq> 0"
  shows "unat (lead_out_of bs li c) = unat bs - (unat li + unat c) mod 2 ^ 64 mod unat bs"
proof -
  have pos: "0 < unat bs" using assms by (simp add: unat_gt_0)
  let ?r = "(ucast li + c) mod (ucast bs :: u64)"
  have r: "unat ?r = (unat li + unat c) mod 2 ^ 64 mod unat bs"
    by (simp add: unat_mod unat_ucast_up unat_word_ariths)
  have lt: "unat ?r < unat bs" using pos by (simp add: r)
  then have "unat ?r < 2 ^ 32" using unat_u32_bound [of bs] by linarith
  then have d: "unat (ucast ?r :: u32) = unat ?r" by (simp add: unat_ucast_down)
  have "ucast ?r \<le> bs" using lt by (simp add: word_le_nat_alt d)
  then have "unat (bs - ucast ?r) = unat bs - unat (ucast ?r :: u32)"
    by (rule unat_sub)
  then show ?thesis by (simp add: lead_out_of_def d r)
qed

text \<open>The lead-out is the distance to the next block boundary, counted from 1: a request
  that ends on a boundary has a lead-out of a whole block, never of 0.\<close>

lemma lead_out_of_nonzero:
  assumes "bs \<noteq> 0"
  shows "lead_out_of bs li c \<noteq> 0"
proof -
  have pos: "0 < unat bs" using assms by (simp add: unat_gt_0)
  have "(unat li + unat c) mod 2 ^ 64 mod unat bs < unat bs" using pos by simp
  then have "0 < unat (lead_out_of bs li c)" by (simp add: unat_lead_out_of [OF assms])
  then show ?thesis by (simp add: unat_gt_0)
qed

lemma lead_out_of_le:
  assumes "bs \<noteq> 0"
  shows "lead_out_of bs li c \<le> bs"
  by (simp add: word_le_nat_alt unat_lead_out_of [OF assms])

text \<open>So every request to a device with a block size takes the branch for unaligned
  requests.\<close>

lemma lvm2_device_read_unaligned:
  assumes "in_count \<le> SSIZE_MAX"
    and "heap s dev = Some (DeviceObj d)"
    and "block_size d \<noteq> 0"
  shows "lvm2_device_read env s dev in_pos in_count in_buf count =
         read_unaligned env s d in_pos in_count in_buf
           (lead_in_of (block_size d) in_pos)
           (lead_out_of (block_size d) (lead_in_of (block_size d) in_pos) in_count) count"
  using assms lead_out_of_nonzero [of "block_size d"]
  by (simp add: lvm2_device_read_def Let_def not_less [symmetric])

lemma unat_aligned_pos_of:
  assumes "bs \<noteq> 0"
  shows "unat (aligned_pos_of in_pos (lead_in_of bs in_pos)) = unat in_pos - unat in_pos mod unat bs"
proof -
  have li: "unat (ucast (lead_in_of bs in_pos) :: u64) = unat in_pos mod unat bs"
    by (simp add: unat_ucast_up unat_lead_in_of [OF assms])
  have "unat in_pos mod unat bs \<le> unat in_pos" by (rule mod_less_eq_dividend)
  then have "ucast (lead_in_of bs in_pos) \<le> in_pos"
    by (simp add: word_le_nat_alt li)
  then have "unat (in_pos - ucast (lead_in_of bs in_pos))
      = unat in_pos - unat (ucast (lead_in_of bs in_pos) :: u64)"
    by (rule unat_sub)
  then show ?thesis by (simp add: aligned_pos_of_def li)
qed

subsection \<open>Requests that are too long\<close>

text \<open>
  C5. A call of \<open>lvm2_device_read\<close> whose count is above \<open>SSIZE_MAX\<close> returns
  \<open>ERANGE\<close> and leaves the kernel as it was: nothing is allocated, no call is made into
  IOKit, the media is not read and the caller's buffer keeps its bytes. Not even the device
  handle is looked at.
\<close>

theorem oversize_count_rejected:
  "SSIZE_MAX < in_count \<Longrightarrow>
   lvm2_device_read env s dev in_pos in_count in_buf count = Some (ERANGE, s)"
  by (simp add: lvm2_device_read_def)

theorem oversize_count_rejected_witness:
  "SSIZE_MAX < (0x8000000000000000 :: size_t) \<and>
   lvm2_device_read (quiet_iokit disk8 4) (attached 4 2) 0 0 0x8000000000000000 1 0
     = Some (ERANGE, attached 4 2)"
  using oversize_count_rejected
    [of "0x8000000000000000" "quiet_iokit disk8 4" "attached 4 2" 0 0 1 0]
  by (simp add: SSIZE_MAX_def)

subsection \<open>The three ways a read ends\<close>

text \<open>The temporary descriptor cannot be had: nothing but the log and the failed allocation
  has happened.\<close>

lemma read_unaligned_nomem:
  assumes "withCapacity_fails env (unat (aligned_count_of li count lo))"
  shows "read_unaligned env s d in_pos in_count in_buf li lo count =
         Some (ENOMEM, s\<lparr>trace := trace s @
           [EvLogError, EvWithCapacity (unat (aligned_count_of li count lo)) NULL, EvLogError]\<rparr>)"
  using assms by (simp add: read_unaligned_def withCapacity_def LogError_def emit_def Let_def)

text \<open>The media refuses the transfer: the temporary descriptor is released, and the
  descriptors are what they were.\<close>

lemma read_unaligned_eio:
  fixes li lo :: u32 and count in_count :: size_t and n :: nat
  defines "n \<equiv> unat (aligned_count_of li count lo)"
  assumes "withCapacity_fails env n = False"
    and "transfer_fails env (media d) (aligned_pos_of in_pos li) n"
    and "heap s in_buf = Some (IOBufferObj b)"
    and "descs s (buffer b) = Some dst"
    and "descs s (next_desc s) = None"
  shows "read_unaligned env s d in_pos in_count in_buf li lo count =
         Some (EIO, s\<lparr>next_desc := Suc (next_desc s),
           trace := trace s @
             [EvLogError, EvWithCapacity n (Some (next_desc s)),
              EvRead (media d) (storage d) (aligned_pos_of in_pos li) n False,
              EvRelease (next_desc s)]\<rparr>)"
proof -
  have ne: "next_desc s \<noteq> buffer b" using assms by auto
  have idem: "(descs s)(next_desc s := None) = descs s"
    using assms by (simp add: fun_upd_idem)
  show ?thesis
    using assms ne
    by (simp add: read_unaligned_def read_into_def withCapacity_def LogError_def emit_def
        media_read_def release_def Let_def idem)
qed

text \<open>The transfer succeeds: the caller's descriptor receives the first bytes of the
  temporary one, which hold the media from \<open>aligned_pos\<close> on, and the temporary descriptor
  is released. \<open>k\<close> is the number of bytes \<open>writeBytes\<close> copies.\<close>

lemma read_unaligned_ok:
  fixes li lo :: u32 and count in_count :: size_t and dst :: "u8 list" and n k :: nat
  defines "n \<equiv> unat (aligned_count_of li count lo)"
  defines "k \<equiv> min (unat in_count) (length dst)"
  assumes "withCapacity_fails env n = False"
    and "transfer_fails env (media d) (aligned_pos_of in_pos li) n = False"
    and "heap s in_buf = Some (IOBufferObj b)"
    and "descs s (buffer b) = Some dst"
    and "descs s (next_desc s) = None"
    and "k \<le> n"
  shows "read_unaligned env s d in_pos in_count in_buf li lo count =
         Some (0, s\<lparr>descs := (descs s)(buffer b \<mapsto>
             take k (drop (unat (aligned_pos_of in_pos li)) (media_bytes env (media d)))
               @ drop k dst),
           next_desc := Suc (next_desc s),
           trace := trace s @
             [EvLogError, EvWithCapacity n (Some (next_desc s)),
              EvRead (media d) (storage d) (aligned_pos_of in_pos li) n True,
              EvWriteBytes (buffer b) 0 (unat in_count) k]
             @ (if k \<noteq> unat in_count then [EvLogError] else [])
             @ [EvRelease (next_desc s)]\<rparr>)"
proof -
  let ?ap = "aligned_pos_of in_pos li"
  let ?src = "take n (drop (unat ?ap) (media_bytes env (media d)))"
  have ne: "next_desc s \<noteq> buffer b" using assms by auto
  have len: "length ?src = n"
    using assms(4) by (auto simp: transfer_fails_def)
  have idem: "(descs s)(buffer b \<mapsto> dst) = descs s"
    using assms by (simp add: fun_upd_idem)
  have tk: "take k ?src = take k (drop (unat ?ap) (media_bytes env (media d)))"
    using \<open>k \<le> n\<close> by (simp add: min_absorb1)
  have idem0: "(descs s)(next_desc s := None) = descs s"
    using assms by (simp add: fun_upd_idem)
  have scratch_gone: "\<And>x y. ((descs s)(next_desc s \<mapsto> x, buffer b \<mapsto> y))(next_desc s := None)
      = (descs s)(buffer b \<mapsto> y)"
    using ne assms(7) by (auto simp: fun_eq_iff)
  show ?thesis
  proof (cases "length dst = 0")
    case True
    then have k0: "k = 0" by (simp add: k_def)
    have idem': "(descs s)(buffer b \<mapsto> []) = descs s"
      using idem True by simp
    from True k0 assms(3-7) ne len show ?thesis
      by (simp add: read_unaligned_def read_into_def withCapacity_def LogError_def emit_def
          media_read_def release_def writeBytes_def Let_def idem' idem0 n_def [symmetric])
  next
    case False
    with assms(3-8) ne len tk show ?thesis
      by (simp add: read_unaligned_def read_into_def withCapacity_def LogError_def emit_def
          media_read_def release_def writeBytes_def Let_def scratch_gone n_def [symmetric]
          k_def [symmetric])
  qed
qed

text \<open>The transfer succeeds, but the temporary descriptor is shorter than what
  \<open>writeBytes\<close> is told to copy out of it: the copy reads outside of it.\<close>

lemma read_unaligned_overread:
  fixes li lo :: u32 and count in_count :: size_t and dst :: "u8 list" and n k :: nat
  defines "n \<equiv> unat (aligned_count_of li count lo)"
  defines "k \<equiv> min (unat in_count) (length dst)"
  assumes "withCapacity_fails env n = False"
    and "transfer_fails env (media d) (aligned_pos_of in_pos li) n = False"
    and "heap s in_buf = Some (IOBufferObj b)"
    and "descs s (buffer b) = Some dst"
    and "descs s (next_desc s) = None"
    and "n < k"
  shows "read_unaligned env s d in_pos in_count in_buf li lo count = None"
proof -
  let ?ap = "aligned_pos_of in_pos li"
  have ne: "next_desc s \<noteq> buffer b" using assms by auto
  have len: "length (take n (drop (unat ?ap) (media_bytes env (media d)))) = n"
    using assms(4) by (auto simp: transfer_fails_def)
  have pos: "0 < length dst" using \<open>n < k\<close> by (auto simp: k_def)
  from assms(3-7) ne len pos \<open>n < k\<close> show ?thesis
    by (simp add: read_unaligned_def read_into_def withCapacity_def LogError_def emit_def
        media_read_def release_def writeBytes_def Let_def n_def [symmetric] k_def [symmetric])
qed

text \<open>No read changes a block of \<open>IOMalloc\<close>: neither a device handle nor an I/O buffer
  structure.\<close>

lemma heap_read_into:
  "read_into env s d pos buf in_count in_buf = Some (err, s') \<Longrightarrow> heap s' = heap s"
  by (auto simp: read_into_def call_defs Let_def
      split: option.splits obj.splits if_splits prod.splits)

lemma heap_read_unaligned:
  "read_unaligned env s d in_pos in_count in_buf li lo count = Some (err, s') \<Longrightarrow>
   heap s' = heap s"
  by (auto simp: read_unaligned_def withCapacity_def LogError_def emit_def Let_def
      dest!: heap_read_into split: if_splits)

lemma heap_lvm2_device_read:
  "lvm2_device_read env s dev in_pos in_count in_buf count = Some (err, s') \<Longrightarrow>
   heap s' = heap s"
  by (auto simp: lvm2_device_read_def Let_def
      dest: heap_read_into heap_read_unaligned split: option.splits obj.splits if_splits)

text \<open>
  C4. A read from a device with a block size always takes the branch with the temporary
  descriptor. For a call with a live device handle and a live destination buffer, and an
  allocator that hands out an unused address: whenever the call returns, the set of live
  descriptors is the one before the call, the temporary descriptor is not among them, and
  \<^item> if the temporary descriptor cannot be allocated, the result is \<open>ENOMEM\<close>, right after
    the failed allocation and the log calls: the media was not read;
  \<^item> if the media read fails, the result is \<open>EIO\<close> and the last call made was the release
    of the temporary descriptor;
  \<^item> otherwise the result is 0 and the last call made was the release of the temporary
    descriptor.

  The call does return in the first two cases, and in the third when the copy stays inside
  the temporary descriptor.
\<close>

theorem scratch_buffer_released_on_every_exit:
  fixes d :: lvm2_device and in_pos :: u64 and in_count count :: size_t and dst :: "u8 list"
    and li lo :: u32 and ap :: u64 and n k :: nat
  defines "li \<equiv> lead_in_of (block_size d) in_pos"
  defines "lo \<equiv> lead_out_of (block_size d) li in_count"
  defines "ap \<equiv> aligned_pos_of in_pos li"
  defines "n \<equiv> unat (aligned_count_of li count lo)"
  defines "k \<equiv> min (unat in_count) (length dst)"
  assumes "in_count \<le> SSIZE_MAX"
    and "heap s dev = Some (DeviceObj d)"
    and "block_size d \<noteq> 0"
    and "heap s in_buf = Some (IOBufferObj b)"
    and "descs s (buffer b) = Some dst"
    and "descs s (next_desc s) = None"
  shows "(\<forall>err s'. lvm2_device_read env s dev in_pos in_count in_buf count = Some (err, s')
          \<longrightarrow> dom (descs s') = dom (descs s)
            \<and> descs s' (next_desc s) = None
            \<and> (if withCapacity_fails env n then
                  err = ENOMEM \<and> descs s' = descs s \<and>
                  trace s' = trace s @ [EvLogError, EvWithCapacity n NULL, EvLogError]
                else if transfer_fails env (media d) ap n then
                  err = EIO \<and> descs s' = descs s \<and>
                  trace s' = trace s @
                    [EvLogError, EvWithCapacity n (Some (next_desc s)),
                     EvRead (media d) (storage d) ap n False, EvRelease (next_desc s)]
                else
                  err = 0 \<and>
                  trace s' = trace s @
                    [EvLogError, EvWithCapacity n (Some (next_desc s)),
                     EvRead (media d) (storage d) ap n True,
                     EvWriteBytes (buffer b) 0 (unat in_count) k]
                    @ (if k \<noteq> unat in_count then [EvLogError] else [])
                    @ [EvRelease (next_desc s)]))
     \<and> (withCapacity_fails env n \<or> transfer_fails env (media d) ap n \<or> k \<le> n
          \<longrightarrow> lvm2_device_read env s dev in_pos in_count in_buf count \<noteq> None)"
proof -
  have eq: "lvm2_device_read env s dev in_pos in_count in_buf count =
            read_unaligned env s d in_pos in_count in_buf li lo count"
    using assms(6-8) unfolding li_def lo_def by (rule lvm2_device_read_unaligned)
  have ne: "next_desc s \<noteq> buffer b" using assms(10,11) by auto
  have dm: "insert (buffer b) (dom (descs s)) = dom (descs s)"
    using assms(10) by auto
  show ?thesis
  proof (cases "withCapacity_fails env n")
    case True
    then show ?thesis
      unfolding eq n_def using assms(11) by (simp add: read_unaligned_nomem)
  next
    case nofail: False
    show ?thesis
    proof (cases "transfer_fails env (media d) ap n")
      case True
      with nofail assms(9-11) show ?thesis
        unfolding eq n_def ap_def by (simp add: read_unaligned_eio)
    next
      case noeio: False
      show ?thesis
      proof (cases "k \<le> n")
        case True
        with nofail noeio assms(9-11) ne dm show ?thesis
          unfolding eq n_def ap_def k_def by (simp add: read_unaligned_ok)
      next
        case False
        then have "n < k" by simp
        with nofail noeio assms(9-11)
        have "read_unaligned env s d in_pos in_count in_buf li lo count = None"
          unfolding n_def ap_def k_def by (simp add: read_unaligned_overread)
        with nofail noeio False show ?thesis
          unfolding eq by simp
      qed
    qed
  qed
qed

theorem scratch_buffer_released_on_every_exit_witness:
  "(2 :: size_t) \<le> SSIZE_MAX
   \<and> heap (attached 4 2) 0 = Some (DeviceObj \<lparr>storage = 7, media = 8, block_size = 4\<rparr>)
   \<and> heap (attached 4 2) 1 = Some (IOBufferObj \<lparr>buffer = 0\<rparr>)
   \<and> descs (attached 4 2) 0 = Some (replicate 2 0)
   \<and> descs (attached 4 2) (next_desc (attached 4 2)) = None
   \<and> lvm2_device_read ((quiet_iokit disk8 4)\<lparr>withCapacity_fails := \<lambda>_. True\<rparr>)
        (attached 4 2) 0 5 2 1 2
       = Some (ENOMEM, (attached 4 2)
           \<lparr>trace := [EvLogError, EvWithCapacity 4 NULL, EvLogError]\<rparr>)
   \<and> lvm2_device_read ((quiet_iokit disk8 4)\<lparr>read_fails := \<lambda>_ _ _. True\<rparr>)
        (attached 4 2) 0 5 2 1 2
       = Some (EIO, (attached 4 2)
           \<lparr>next_desc := 2,
            trace := [EvLogError, EvWithCapacity 4 (Some 1), EvRead 8 7 4 4 False,
                      EvRelease 1]\<rparr>)
   \<and> lvm2_device_read (quiet_iokit disk8 4) (attached 4 2) 0 5 2 1 2
       = Some (0, (attached 4 2)
           \<lparr>descs := [0 \<mapsto> [14, 15]], next_desc := 2,
            trace := [EvLogError, EvWithCapacity 4 (Some 1), EvRead 8 7 4 4 True,
                      EvWriteBytes 0 0 2 2, EvRelease 1]\<rparr>)"
proof -
  let ?s = "attached 4 2"
  let ?d = "\<lparr>storage = 7, media = 8, block_size = 4\<rparr>"
  let ?b = "\<lparr>buffer = 0\<rparr>"
  have h1: "(2 :: size_t) \<le> SSIZE_MAX" by (simp add: SSIZE_MAX_def)
  have h2: "heap ?s 0 = Some (DeviceObj ?d)" by (simp add: attached_def)
  have h3: "block_size ?d \<noteq> 0" by simp
  have h4: "heap ?s 1 = Some (IOBufferObj ?b)" by (simp add: attached_def)
  have h5: "descs ?s (buffer ?b) = Some (replicate 2 0)" by (simp add: attached_def)
  have h6: "descs ?s (next_desc ?s) = None" by (simp add: attached_def)
  note every_exit = scratch_buffer_released_on_every_exit [OF h1 h2 h3 h4 h5 h6]
  have li: "lead_in_of 4 5 = 1" by (simp add: lead_in_of_def)
  have lo: "lead_out_of 4 1 2 = 1" by (simp add: lead_out_of_def)
  have n: "unat (aligned_count_of 1 2 1) = 4" by (simp add: aligned_count_of_def)
  have returns: "lvm2_device_read (quiet_iokit disk8 4) ?s 0 5 2 1 2 \<noteq> None"
    using every_exit [of "quiet_iokit disk8 4" 5 2, THEN conjunct2]
    by (simp add: li lo n)
  have returns_nomem:
    "lvm2_device_read ((quiet_iokit disk8 4)\<lparr>withCapacity_fails := \<lambda>_. True\<rparr>) ?s 0 5 2 1 2
       \<noteq> None"
    using every_exit [of "(quiet_iokit disk8 4)\<lparr>withCapacity_fails := \<lambda>_. True\<rparr>" 5 2,
        THEN conjunct2]
    by simp
  have returns_eio:
    "lvm2_device_read ((quiet_iokit disk8 4)\<lparr>read_fails := \<lambda>_ _ _. True\<rparr>) ?s 0 5 2 1 2
       \<noteq> None"
    using every_exit [of "(quiet_iokit disk8 4)\<lparr>read_fails := \<lambda>_ _ _. True\<rparr>" 5 2,
        THEN conjunct2]
    by (simp add: transfer_fails_def)
  have ev: "lvm2_device_read ((quiet_iokit disk8 4)\<lparr>withCapacity_fails := \<lambda>_. True\<rparr>)
        ?s 0 5 2 1 2
       = Some (ENOMEM, ?s\<lparr>trace := [EvLogError, EvWithCapacity 4 NULL, EvLogError]\<rparr>)
   \<and> lvm2_device_read ((quiet_iokit disk8 4)\<lparr>read_fails := \<lambda>_ _ _. True\<rparr>)
        ?s 0 5 2 1 2
       = Some (EIO, ?s
           \<lparr>next_desc := 2,
            trace := [EvLogError, EvWithCapacity 4 (Some 1), EvRead 8 7 4 4 False,
                      EvRelease 1]\<rparr>)
   \<and> lvm2_device_read (quiet_iokit disk8 4) ?s 0 5 2 1 2
       = Some (0, ?s
           \<lparr>descs := [0 \<mapsto> [14, 15]], next_desc := 2,
            trace := [EvLogError, EvWithCapacity 4 (Some 1), EvRead 8 7 4 4 True,
                      EvWriteBytes 0 0 2 2, EvRelease 1]\<rparr>)"
    using returns returns_nomem returns_eio
    by (simp add: read_defs call_defs fixture_defs errno_defs Let_def)
  from h1 h2 h4 h5 h6 ev show ?thesis by simp
qed

text \<open>
  C9. When the temporary descriptor was allocated and the media read succeeded, but the
  destination descriptor is shorter than \<open>in_count\<close>, so that \<open>writeBytes\<close> copies
  fewer bytes than \<open>in_count\<close>: whenever the call returns, it returns 0, having logged the
  short copy and released the temporary descriptor. The call does return when the copy stays
  inside the temporary descriptor.
\<close>

theorem short_copy_reported_as_success:
  fixes d :: lvm2_device and in_pos :: u64 and in_count count :: size_t and dst :: "u8 list"
    and li lo :: u32 and ap :: u64 and n :: nat
  defines "li \<equiv> lead_in_of (block_size d) in_pos"
  defines "lo \<equiv> lead_out_of (block_size d) li in_count"
  defines "ap \<equiv> aligned_pos_of in_pos li"
  defines "n \<equiv> unat (aligned_count_of li count lo)"
  assumes "in_count \<le> SSIZE_MAX"
    and "heap s dev = Some (DeviceObj d)"
    and "block_size d \<noteq> 0"
    and "heap s in_buf = Some (IOBufferObj b)"
    and "descs s (buffer b) = Some dst"
    and "descs s (next_desc s) = None"
    and "withCapacity_fails env n = False"
    and "transfer_fails env (media d) ap n = False"
    and "length dst < unat in_count"
  shows "(\<forall>err s'. lvm2_device_read env s dev in_pos in_count in_buf count = Some (err, s')
          \<longrightarrow> err = 0
            \<and> descs s' (buffer b)
                = Some (take (length dst) (drop (unat ap) (media_bytes env (media d))))
            \<and> trace s' = trace s @
                [EvLogError, EvWithCapacity n (Some (next_desc s)),
                 EvRead (media d) (storage d) ap n True,
                 EvWriteBytes (buffer b) 0 (unat in_count) (length dst),
                 EvLogError, EvRelease (next_desc s)])
     \<and> (length dst \<le> n
          \<longrightarrow> lvm2_device_read env s dev in_pos in_count in_buf count \<noteq> None)"
proof -
  have eq: "lvm2_device_read env s dev in_pos in_count in_buf count =
            read_unaligned env s d in_pos in_count in_buf li lo count"
    using assms(5-7) unfolding li_def lo_def by (rule lvm2_device_read_unaligned)
  have k: "min (unat in_count) (length dst) = length dst"
    using assms(13) by simp
  show ?thesis
  proof (cases "length dst \<le> n")
    case True
    with assms(8-13) show ?thesis
      unfolding eq n_def ap_def by (simp add: read_unaligned_ok k)
  next
    case False
    then have "n < min (unat in_count) (length dst)" by (simp add: k)
    with assms(8-12)
    have "read_unaligned env s d in_pos in_count in_buf li lo count = None"
      unfolding n_def ap_def by (simp add: read_unaligned_overread)
    with False show ?thesis unfolding eq by simp
  qed
qed

theorem short_copy_reported_as_success_witness:
  "(2 :: size_t) \<le> SSIZE_MAX
   \<and> heap (attached 4 1) 0 = Some (DeviceObj \<lparr>storage = 7, media = 8, block_size = 4\<rparr>)
   \<and> heap (attached 4 1) 1 = Some (IOBufferObj \<lparr>buffer = 0\<rparr>)
   \<and> descs (attached 4 1) 0 = Some (replicate 1 0)
   \<and> descs (attached 4 1) (next_desc (attached 4 1)) = None
   \<and> length (replicate 1 (0 :: u8)) < unat (2 :: size_t)
   \<and> lvm2_device_read (quiet_iokit disk8 4) (attached 4 1) 0 5 2 1 2
       = Some (0, (attached 4 1)
           \<lparr>descs := [0 \<mapsto> [14]], next_desc := 2,
            trace := [EvLogError, EvWithCapacity 4 (Some 1), EvRead 8 7 4 4 True,
                      EvWriteBytes 0 0 2 1, EvLogError, EvRelease 1]\<rparr>)"
proof -
  let ?s = "attached 4 1"
  let ?d = "\<lparr>storage = 7, media = 8, block_size = 4\<rparr>"
  let ?b = "\<lparr>buffer = 0\<rparr>"
  have li: "lead_in_of 4 5 = 1" by (simp add: lead_in_of_def)
  have lo: "lead_out_of 4 1 2 = 1" by (simp add: lead_out_of_def)
  have n: "unat (aligned_count_of 1 2 1) = 4" by (simp add: aligned_count_of_def)
  have ap: "aligned_pos_of 5 1 = 4" by (simp add: aligned_pos_of_def)
  have h1: "(2 :: size_t) \<le> SSIZE_MAX" by (simp add: SSIZE_MAX_def)
  have h2: "heap ?s 0 = Some (DeviceObj ?d)" by (simp add: attached_def)
  have h3: "block_size ?d \<noteq> 0" by simp
  have h4: "heap ?s 1 = Some (IOBufferObj ?b)" by (simp add: attached_def)
  have h5: "descs ?s (buffer ?b) = Some (replicate 1 0)" by (simp add: attached_def)
  have h6: "descs ?s (next_desc ?s) = None" by (simp add: attached_def)
  have h7: "withCapacity_fails (quiet_iokit disk8 4)
      (unat (aligned_count_of (lead_in_of (block_size ?d) 5) 2
         (lead_out_of (block_size ?d) (lead_in_of (block_size ?d) 5) 2))) = False"
    by (simp add: quiet_iokit_def)
  have h8: "transfer_fails (quiet_iokit disk8 4) (media ?d)
      (aligned_pos_of 5 (lead_in_of (block_size ?d) 5))
      (unat (aligned_count_of (lead_in_of (block_size ?d) 5) 2
         (lead_out_of (block_size ?d) (lead_in_of (block_size ?d) 5) 2))) = False"
    by (simp add: li lo n ap transfer_fails_def quiet_iokit_def disk8_def)
  have h9: "length (replicate 1 (0 :: u8)) < unat (2 :: size_t)" by simp
  note short_copy = short_copy_reported_as_success [OF h1 h2 h3 h4 h5 h6 h7 h8 h9]
  have returns: "lvm2_device_read (quiet_iokit disk8 4) ?s 0 5 2 1 2 \<noteq> None"
    using short_copy [THEN conjunct2] by (simp add: li lo n)
  have ev: "lvm2_device_read (quiet_iokit disk8 4) ?s 0 5 2 1 2
       = Some (0, ?s
           \<lparr>descs := [0 \<mapsto> [14]], next_desc := 2,
            trace := [EvLogError, EvWithCapacity 4 (Some 1), EvRead 8 7 4 4 True,
                      EvWriteBytes 0 0 2 1, EvLogError, EvRelease 1]\<rparr>)"
    using returns
    by (simp add: read_defs call_defs fixture_defs errno_defs Let_def)
  from h1 h2 h4 h5 h6 h9 ev show ?thesis by simp
qed

subsection \<open>What a read delivers\<close>

text \<open>A call that returns 0 to a caller whose buffer is as long as the request has filled the
  buffer with the bytes of the media that start at \<open>aligned_pos\<close>, the block boundary at or
  before \<open>in_pos\<close>: the copy out of the temporary descriptor starts at its first byte, not
  behind the lead-in.\<close>

lemma lvm2_device_read_success:
  fixes d :: lvm2_device and in_pos :: u64 and in_count count :: size_t and dst :: "u8 list"
    and li lo :: u32 and n :: nat
  defines "li \<equiv> lead_in_of (block_size d) in_pos"
  defines "lo \<equiv> lead_out_of (block_size d) li in_count"
  defines "n \<equiv> unat (aligned_count_of li count lo)"
  assumes "in_count \<le> SSIZE_MAX"
    and "heap s dev = Some (DeviceObj d)"
    and "block_size d \<noteq> 0"
    and "heap s in_buf = Some (IOBufferObj b)"
    and "descs s (buffer b) = Some dst"
    and "length dst = unat in_count"
    and "descs s (next_desc s) = None"
    and "lvm2_device_read env s dev in_pos in_count in_buf count = Some (0, s')"
  shows "descs s' (buffer b) =
         Some (take (unat in_count)
                 (drop (unat in_pos - unat in_pos mod unat (block_size d))
                    (media_bytes env (media d))))"
proof -
  let ?ap = "aligned_pos_of in_pos li"
  have eq: "lvm2_device_read env s dev in_pos in_count in_buf count =
            read_unaligned env s d in_pos in_count in_buf li lo count"
    using assms(4-6) unfolding li_def lo_def by (rule lvm2_device_read_unaligned)
  have ap: "unat ?ap = unat in_pos - unat in_pos mod unat (block_size d)"
    unfolding li_def by (rule unat_aligned_pos_of [OF assms(6)])
  have r: "read_unaligned env s d in_pos in_count in_buf li lo count = Some (0, s')"
    using assms(11) by (simp add: eq)
  have nofail: "withCapacity_fails env n = False"
  proof (rule ccontr)
    assume "withCapacity_fails env n \<noteq> False"
    then have "withCapacity_fails env (unat (aligned_count_of li count lo))" by (simp add: n_def)
    from read_unaligned_nomem [OF this] r show False by (simp add: ENOMEM_def)
  qed
  have noeio: "transfer_fails env (media d) ?ap n = False"
  proof (rule ccontr)
    assume "transfer_fails env (media d) ?ap n \<noteq> False"
    then have "transfer_fails env (media d) ?ap (unat (aligned_count_of li count lo))"
      by (simp add: n_def)
    from read_unaligned_eio [OF nofail [unfolded n_def] this assms(7,8,10)] r
    show False by (simp add: EIO_def)
  qed
  have kn: "unat in_count \<le> n"
  proof (rule ccontr)
    assume "\<not> unat in_count \<le> n"
    then have "read_unaligned env s d in_pos in_count in_buf li lo count = None"
      using nofail noeio assms(7-10)
      by (auto simp: read_unaligned_def read_into_def call_defs Let_def n_def)
    with r show False by simp
  qed
  have "read_unaligned env s d in_pos in_count in_buf li lo count
      = Some (0, s\<lparr>descs := (descs s)(buffer b \<mapsto>
             take (unat in_count) (drop (unat ?ap) (media_bytes env (media d)))),
           next_desc := Suc (next_desc s),
           trace := trace s @
             [EvLogError, EvWithCapacity n (Some (next_desc s)),
              EvRead (media d) (storage d) ?ap n True,
              EvWriteBytes (buffer b) 0 (unat in_count) (unat in_count),
              EvRelease (next_desc s)]\<rparr>)"
    using read_unaligned_ok [of env li count lo d in_pos s in_buf b dst in_count]
      nofail noeio assms(7-10) kn
    by (simp add: n_def)
  with r show ?thesis by (auto simp: ap)
qed

text \<open>
  C1. The claim is that a successful read fills the destination with the \<open>count\<close> bytes at
  \<open>position\<close>, the copy starting at offset \<open>lead_in\<close> of the temporary descriptor. It
  does not hold of the code. With a block size of 4, the request for the two bytes at
  position 5 of a media of eight bytes returns 0 when the uninitialised local \<open>count\<close>
  holds 2, the value the parameter has; the destination then holds the bytes 14 and 15 of the
  positions 4 and 5, not the bytes 15 and 16 of the positions 5 and 6. Whatever value the
  local holds, the call never returns 0 with the bytes 15 and 16 in the destination.
\<close>

theorem read_copies_from_start_of_scratch:
  "lvm2_device_read (quiet_iokit disk8 4) (attached 4 2) 0 5 2 1 2
     = Some (0, (attached 4 2)
         \<lparr>descs := [0 \<mapsto> [14, 15]], next_desc := 2,
          trace := [EvLogError, EvWithCapacity 4 (Some 1), EvRead 8 7 4 4 True,
                    EvWriteBytes 0 0 2 2, EvRelease 1]\<rparr>)
   \<and> take 2 (drop 5 disk8) = [15, 16]
   \<and> (\<forall>c. map_option (\<lambda>(err, s'). (err, descs s' 0))
            (lvm2_device_read (quiet_iokit disk8 4) (attached 4 2) 0 5 2 1 c)
          \<noteq> Some (0, Some [15, 16]))"
proof (intro conjI allI)
  show "lvm2_device_read (quiet_iokit disk8 4) (attached 4 2) 0 5 2 1 2
     = Some (0, (attached 4 2)
         \<lparr>descs := [0 \<mapsto> [14, 15]], next_desc := 2,
          trace := [EvLogError, EvWithCapacity 4 (Some 1), EvRead 8 7 4 4 True,
                    EvWriteBytes 0 0 2 2, EvRelease 1]\<rparr>)"
    by (simp add: read_defs call_defs fixture_defs errno_defs Let_def)
next
  show "take 2 (drop 5 disk8) = [15, 16]"
    by (simp add: disk8_def)
next
  fix c
  show "map_option (\<lambda>(err, s'). (err, descs s' 0))
            (lvm2_device_read (quiet_iokit disk8 4) (attached 4 2) 0 5 2 1 c)
          \<noteq> Some (0, Some [15, 16])"
  proof -
    let ?n = "unat (aligned_count_of 1 c 1)"
    have li: "lead_in_of 4 5 = 1" by (simp add: lead_in_of_def)
    have lo: "lead_out_of 4 1 2 = 1" by (simp add: lead_out_of_def)
    have ap: "aligned_pos_of 5 1 = 4" by (simp add: aligned_pos_of_def)
    have eq: "lvm2_device_read (quiet_iokit disk8 4) (attached 4 2) 0 5 2 1 c
        = read_unaligned (quiet_iokit disk8 4) (attached 4 2)
            \<lparr>storage = 7, media = 8, block_size = 4\<rparr> 5 2 1 1 1 c"
      using lvm2_device_read_unaligned [of 2 "attached 4 2" 0
          "\<lparr>storage = 7, media = 8, block_size = 4\<rparr>" "quiet_iokit disk8 4" 5 1 c]
      by (simp add: li lo SSIZE_MAX_def attached_def)
    show ?thesis
      unfolding eq
      by (auto simp: read_unaligned_def read_into_def call_defs fixture_defs Let_def ap
          errno_defs min_def take_Suc_conv_app_nth
          split: option.splits if_splits)
  qed
qed

text \<open>
  C2. The claim is about the request for one byte at position 513 of a device with a block
  size of 512. The lead-in is 1, the aligned position 512 and the lead-out 510, as the claim
  says. The capacity of the temporary descriptor is not 512: it is 511 plus whatever the
  uninitialised local \<open>count\<close> holds, 511 bytes when it holds 0. And when it holds 1, so
  that the capacity is 512, the byte copied to the destination is the one at offset 0 of the
  temporary descriptor (the 7 at position 512 of the media), not the one at offset 1 (the 9
  at position 513).
\<close>

theorem single_byte_read_actual:
  "lead_in_of 512 513 = 1
   \<and> aligned_pos_of 513 1 = 512
   \<and> lead_out_of 512 1 1 = 510
   \<and> (\<forall>c. aligned_count_of 1 c 510 = c + 511)
   \<and> lvm2_device_read (quiet_iokit disk1024 512) (attached 512 1) 0 513 1 1 0
       = Some (0, (attached 512 1)
           \<lparr>descs := [0 \<mapsto> [7]], next_desc := 2,
            trace := [EvLogError, EvWithCapacity 511 (Some 1), EvRead 8 7 512 511 True,
                      EvWriteBytes 0 0 1 1, EvRelease 1]\<rparr>)
   \<and> lvm2_device_read (quiet_iokit disk1024 512) (attached 512 1) 0 513 1 1 1
       = Some (0, (attached 512 1)
           \<lparr>descs := [0 \<mapsto> [7]], next_desc := 2,
            trace := [EvLogError, EvWithCapacity 512 (Some 1), EvRead 8 7 512 512 True,
                      EvWriteBytes 0 0 1 1, EvRelease 1]\<rparr>)
   \<and> take 1 (drop 513 disk1024) = [9]"
  by (simp add: read_defs call_defs fixture_defs errno_defs Let_def)

text \<open>
  C3. The lead-in is the position modulo the block size, and is below the block size
  (\<open>unat_lead_in_of\<close>, \<open>lead_in_of_less\<close>). The lead-out is computed by the formula of the
  claim, but lies between 1 and the block size, never at 0 (\<open>lead_out_of_nonzero\<close>,
  \<open>lead_out_of_le\<close>). For the request of the claim, 512 bytes at position 0 with a block
  size of 512 into a buffer of 512 bytes, the lead-out is 512 and the call goes through a
  temporary descriptor of 1024 bytes (when the uninitialised local \<open>count\<close> holds 512): the
  media is not read into the caller's buffer.
\<close>

theorem block_multiple_read_actual:
  "lead_in_of 512 0 = 0
   \<and> lead_out_of 512 0 512 = 512
   \<and> (\<forall>li c. lead_out_of 512 li c \<noteq> 0)
   \<and> lvm2_device_read (quiet_iokit disk1024 512) (attached 512 512) 0 0 512 1 512
       = Some (0, (attached 512 512)
           \<lparr>next_desc := 2,
            trace := [EvLogError, EvWithCapacity 1024 (Some 1), EvRead 8 7 0 1024 True,
                      EvWriteBytes 0 0 512 512, EvRelease 1]\<rparr>)"
  using lead_out_of_nonzero [of 512]
  by (simp add: read_defs call_defs fixture_defs errno_defs Let_def)

subsection \<open>Creating and destroying a device handle\<close>

text \<open>
  C8. When the preferred block size of the media is above \<open>U32_MAX\<close>,
  \<open>lvm2_unix_device_create\<close> returns \<open>EINVAL\<close>. The only call it has made is the one to
  the log: the storage object was not opened, nothing was allocated, and the caller's pointer
  is as it was.
\<close>

theorem unrealistic_block_size_rejected:
  "U32_MAX < getPreferredBlockSize env m \<Longrightarrow>
   lvm2_unix_device_create env s st m out_dev
     = Some (EINVAL, out_dev, s\<lparr>trace := trace s @ [EvLogError]\<rparr>)"
  by (simp add: lvm2_unix_device_create_def LogError_def emit_def)

theorem unrealistic_block_size_rejected_witness:
  "U32_MAX < getPreferredBlockSize (quiet_iokit disk8 0x100000000) 8 \<and>
   lvm2_unix_device_create (quiet_iokit disk8 0x100000000) boot 7 8 NULL
     = Some (EINVAL, NULL, boot\<lparr>trace := trace boot @ [EvLogError]\<rparr>)"
  using unrealistic_block_size_rejected [of "quiet_iokit disk8 0x100000000" 8 boot 7 NULL]
  by (simp add: quiet_iokit_def U32_MAX_def)

text \<open>
  C6. When the storage object was opened and the handle cannot be allocated,
  \<open>lvm2_unix_device_create\<close> closes the storage object and returns \<open>ENOMEM\<close>: the calls
  made are the open, the failed allocation and the close, in this order. And every call
  returns, either with 0, a handle that records the storage object and the storage object
  open, or with an error, the caller's pointer as it was, and the storage object open only if
  it was open before the call.
\<close>

theorem storage_closed_when_handle_allocation_fails:
  fixes env :: iokit and s :: kernel and st m :: addr and out_dev :: ptr
  defines "r \<equiv> lvm2_unix_device_create env s st m out_dev"
  shows
  "(getPreferredBlockSize env m \<le> U32_MAX \<and> open_fails env st = False
      \<and> IOMalloc_fails env sizeof_lvm2_device \<longrightarrow>
      r = Some (ENOMEM, out_dev,
            s\<lparr>opened := opened s - {st},
              trace := trace s @
                [EvOpen st True, EvIOMalloc sizeof_lvm2_device NULL, EvClose st]\<rparr>))
   \<and> (\<exists>err out' s'. r = Some (err, out', s') \<and>
        (if err = 0
         then out' = Some (next_block s) \<and> st \<in> opened s' \<and>
              heap s' (next_block s)
                = Some (DeviceObj \<lparr>storage = st, media = m,
                                    block_size = ucast (getPreferredBlockSize env m)\<rparr>)
         else out' = out_dev \<and> heap s' = heap s \<and> (st \<in> opened s' \<longrightarrow> st \<in> opened s)))"
  unfolding r_def
  by (simp add: lvm2_unix_device_create_def lvm2_malloc_def call_defs Let_def errno_defs
      not_less [symmetric])

theorem storage_closed_when_handle_allocation_fails_witness:
  "getPreferredBlockSize ((quiet_iokit disk8 4)\<lparr>IOMalloc_fails := \<lambda>_. True\<rparr>) 8 \<le> U32_MAX
   \<and> open_fails ((quiet_iokit disk8 4)\<lparr>IOMalloc_fails := \<lambda>_. True\<rparr>) 7 = False
   \<and> IOMalloc_fails ((quiet_iokit disk8 4)\<lparr>IOMalloc_fails := \<lambda>_. True\<rparr>) sizeof_lvm2_device
   \<and> 7 \<notin> opened boot
   \<and> lvm2_unix_device_create ((quiet_iokit disk8 4)\<lparr>IOMalloc_fails := \<lambda>_. True\<rparr>) boot 7 8 NULL
       = Some (ENOMEM, NULL,
           boot\<lparr>trace := [EvOpen 7 True, EvIOMalloc 24 NULL, EvClose 7]\<rparr>)"
  using storage_closed_when_handle_allocation_fails
    [where env = "(quiet_iokit disk8 4)\<lparr>IOMalloc_fails := \<lambda>_. True\<rparr>"
       and s = boot and st = 7 and m = 8 and out_dev = NULL]
  by (simp add: create_defs call_defs fixture_defs errno_defs Let_def)

text \<open>A media whose preferred block size is 0 gets a handle with the block size 0.\<close>

theorem zero_block_size_accepted:
  "lvm2_unix_device_create (quiet_iokit disk8 0) boot 7 8 NULL
     = Some (0, Some 0,
         boot\<lparr>heap := [0 \<mapsto> DeviceObj \<lparr>storage = 7, media = 8, block_size = 0\<rparr>],
              next_block := 1, opened := {7},
              trace := [EvOpen 7 True, EvIOMalloc 24 (Some 0)]\<rparr>)"
  by (simp add: create_defs call_defs fixture_defs Let_def)

lemma unat_block_size_created:
  assumes "bsz \<le> U32_MAX"
  shows "unat (ucast bsz :: u32) = unat bsz"
proof -
  have "unat bsz \<le> unat U32_MAX" using assms by (simp add: word_le_nat_alt)
  then have "unat bsz < 2 ^ 32" by (simp add: U32_MAX_def)
  then show ?thesis by (simp add: unat_ucast_down)
qed

text \<open>
  C7, amended. The block size of a handle that \<open>lvm2_unix_device_create\<close> returns is the
  preferred block size of the media, which is at most \<open>U32_MAX\<close>; it is above 0 exactly
  when the media reports a preferred block size above 0. No read changes a block of the heap,
  so no handle's block size changes; destroying a handle removes its block and changes no
  other.
\<close>

theorem block_size_recorded_and_kept:
  "(lvm2_unix_device_create env sa st m out_dev = Some (0, out', sa') \<longrightarrow>
      (\<exists>a d. out' = Some a \<and> heap sa' a = Some (DeviceObj d) \<and>
         unat (block_size d) = unat (getPreferredBlockSize env m) \<and>
         getPreferredBlockSize env m \<le> U32_MAX))
   \<and> (lvm2_device_read env sb dev in_pos in_count in_buf count = Some (err, sb') \<longrightarrow>
        heap sb' = heap sb)
   \<and> (lvm2_unix_device_destroy sc (Some h) = Some (p, sc') \<longrightarrow>
        heap sc' = (heap sc)(h := None))"
proof (intro conjI impI)
  assume "lvm2_unix_device_create env sa st m out_dev = Some (0, out', sa')"
  then show "\<exists>a d. out' = Some a \<and> heap sa' a = Some (DeviceObj d) \<and>
         unat (block_size d) = unat (getPreferredBlockSize env m) \<and>
         getPreferredBlockSize env m \<le> U32_MAX"
    by (auto simp: lvm2_unix_device_create_def lvm2_malloc_def call_defs Let_def errno_defs
        not_less unat_block_size_created split: if_splits)
next
  assume "lvm2_device_read env sb dev in_pos in_count in_buf count = Some (err, sb')"
  then show "heap sb' = heap sb" by (rule heap_lvm2_device_read)
next
  assume "lvm2_unix_device_destroy sc (Some h) = Some (p, sc')"
  then show "heap sc' = (heap sc)(h := None)"
    by (auto simp: lvm2_unix_device_destroy_def lvm2_free_def call_defs
        split: option.splits obj.splits)
qed

theorem block_size_recorded_and_kept_witness:
  "lvm2_unix_device_create (quiet_iokit disk8 4) boot 7 8 NULL
     = Some (0, Some 0,
         boot\<lparr>heap := [0 \<mapsto> DeviceObj \<lparr>storage = 7, media = 8, block_size = 4\<rparr>],
              next_block := 1, opened := {7},
              trace := [EvOpen 7 True, EvIOMalloc 24 (Some 0)]\<rparr>)
   \<and> unat (4 :: u32) = unat (getPreferredBlockSize (quiet_iokit disk8 4) 8)
   \<and> lvm2_device_read (quiet_iokit disk8 4) (attached 4 2) 0 5 2 1 2
       = Some (0, (attached 4 2)
           \<lparr>descs := [0 \<mapsto> [14, 15]], next_desc := 2,
            trace := [EvLogError, EvWithCapacity 4 (Some 1), EvRead 8 7 4 4 True,
                      EvWriteBytes 0 0 2 2, EvRelease 1]\<rparr>)
   \<and> lvm2_unix_device_destroy (attached 4 2) (Some 0)
       = Some (NULL, (attached 4 2)
           \<lparr>heap := (heap (attached 4 2))(0 := None), opened := {},
            trace := [EvClose 7, EvIOFree 0 24]\<rparr>)"
  using block_size_recorded_and_kept
    [where env = "quiet_iokit disk8 4" and sa = boot and st = 7 and m = 8 and out_dev = NULL
       and out' = "Some 0"
       and sa' = "boot\<lparr>heap := [0 \<mapsto> DeviceObj \<lparr>storage = 7, media = 8, block_size = 4\<rparr>],
              next_block := 1, opened := {7},
              trace := [EvOpen 7 True, EvIOMalloc 24 (Some 0)]\<rparr>"
       and sb = "attached 4 2" and dev = 0 and in_pos = 5 and in_count = 2 and in_buf = 1
       and count = 2 and err = 0
       and sb' = "(attached 4 2)
           \<lparr>descs := [0 \<mapsto> [14, 15]], next_desc := 2,
            trace := [EvLogError, EvWithCapacity 4 (Some 1), EvRead 8 7 4 4 True,
                      EvWriteBytes 0 0 2 2, EvRelease 1]\<rparr>"
       and sc = "attached 4 2" and h = 0 and p = NULL
       and sc' = "(attached 4 2)
           \<lparr>heap := (heap (attached 4 2))(0 := None), opened := {},
            trace := [EvClose 7, EvIOFree 0 24]\<rparr>"]
  by (simp add: create_defs destroy_defs read_defs call_defs fixture_defs errno_defs Let_def)

text \<open>
  C10. Each of \<open>lvm2_free\<close>, \<open>lvm2_io_buffer_destroy\<close> and \<open>lvm2_unix_device_destroy\<close>
  leaves \<open>NULL\<close> in the caller's pointer whenever it returns. Given a pointer to a live
  block (for a buffer, with a live descriptor) each of them returns, and the block (and the
  descriptor, and the open storage object) is gone.
\<close>

theorem destroy_sets_pointer_to_NULL:
  "(lvm2_free sa p sz = Some (p', sa') \<longrightarrow> p' = NULL)
   \<and> (lvm2_io_buffer_destroy sb buf = Some (buf', sb') \<longrightarrow> buf' = NULL)
   \<and> (lvm2_unix_device_destroy sc dev = Some (dev', sc') \<longrightarrow> dev' = NULL)
   \<and> (heap sd a = Some x \<longrightarrow>
        (\<exists>s'. lvm2_free sd (Some a) n = Some (NULL, s') \<and> heap s' a = None))
   \<and> (heap se ab = Some (IOBufferObj b) \<and> descs se (buffer b) = Some bytes \<longrightarrow>
        (\<exists>s'. lvm2_io_buffer_destroy se (Some ab) = Some (NULL, s') \<and> heap s' ab = None
           \<and> descs s' (buffer b) = None))
   \<and> (heap sf ad = Some (DeviceObj d) \<longrightarrow>
        (\<exists>s'. lvm2_unix_device_destroy sf (Some ad) = Some (NULL, s') \<and> heap s' ad = None
           \<and> storage d \<notin> opened s'))"
  by (auto simp: destroy_defs call_defs split: option.splits obj.splits)

theorem destroy_sets_pointer_to_NULL_witness:
  "lvm2_free (attached 4 2) (Some 1) 8
     = Some (NULL, (attached 4 2)
         \<lparr>heap := (heap (attached 4 2))(1 := None), trace := [EvIOFree 1 8]\<rparr>)
   \<and> lvm2_io_buffer_destroy (attached 4 2) (Some 1)
     = Some (NULL, (attached 4 2)
         \<lparr>heap := (heap (attached 4 2))(1 := None), descs := Map.empty,
          trace := [EvRelease 0, EvIOFree 1 8]\<rparr>)
   \<and> lvm2_unix_device_destroy (attached 4 2) (Some 0)
     = Some (NULL, (attached 4 2)
         \<lparr>heap := (heap (attached 4 2))(0 := None), opened := {},
          trace := [EvClose 7, EvIOFree 0 24]\<rparr>)
   \<and> heap (attached 4 2) 1 = Some (IOBufferObj \<lparr>buffer = 0\<rparr>)
   \<and> descs (attached 4 2) 0 = Some (replicate 2 0)
   \<and> heap (attached 4 2) 0 = Some (DeviceObj \<lparr>storage = 7, media = 8, block_size = 4\<rparr>)"
  using destroy_sets_pointer_to_NULL
    [where sa = "attached 4 2" and p = "Some 1" and sz = 8 and p' = NULL
       and sa' = "(attached 4 2)
         \<lparr>heap := (heap (attached 4 2))(1 := None), trace := [EvIOFree 1 8]\<rparr>"
       and sb = "attached 4 2" and buf = "Some 1" and buf' = NULL
       and sb' = "(attached 4 2)
         \<lparr>heap := (heap (attached 4 2))(1 := None), descs := Map.empty,
          trace := [EvRelease 0, EvIOFree 1 8]\<rparr>"
       and sc = "attached 4 2" and dev = "Some 0" and dev' = NULL
       and sc' = "(attached 4 2)
         \<lparr>heap := (heap (attached 4 2))(0 := None), opened := {},
          trace := [EvClose 7, EvIOFree 0 24]\<rparr>"
       and sd = "attached 4 2" and a = 1 and x = "IOBufferObj \<lparr>buffer = 0\<rparr>" and n = 8
       and se = "attached 4 2" and ab = 1 and b = "\<lparr>buffer = 0\<rparr>"
       and bytes = "replicate 2 0"
       and sf = "attached 4 2" and ad = 0
       and d = "\<lparr>storage = 7, media = 8, block_size = 4\<rparr>"]
  by (simp add: destroy_defs call_defs fixture_defs)

end
